theory Spec2Isabelle
  imports Complex_Main "HOL-Library.Sublist" "HOL-Library.Multiset" "HOL-Library.Word"
begin

section \<open>The filmography pipeline of app_V2.py\<close>

text \<open>
  The script reads a table of movies, keeps the rows of one actor, derives three columns
  (integer year, poster with a placeholder, motif), narrows the rows by the sidebar
  selection and computes a handful of small tables from the rows that are left.

  A data frame is modelled as the list of its rows, in index order. A cell of a text
  column is a string or missing (\<open>None\<close>, the library's NaN); a string is the sequence of
  the UTF-8 bytes of the text. A cell of the Rating or Duration column is a rational
  number or missing; the rounding of binary floating point is not modelled. Integers are
  those of a platform whose \<open>int\<close> is 64 bits wide.
\<close>

subsection \<open>Rows\<close>

datatype py_error = ValueError | TypeError | AttributeError

text \<open>
  What a cell of the Year column holds depends on how the column was read.
  \<^item> In a column of floating point numbers: a missing value (\<open>YNaN\<close>), an infinity
    (\<open>YInf\<close>) or a finite number (\<open>YFloat\<close>).
  \<^item> In a column of integers, which has no missing value: the 64 bits of the number
    (\<open>YInt\<close>), which the column reads as signed or as unsigned.
  \<^item> In a column left as text because some cell of it is no number: a missing value or
    a string. The integer cast calls Python's \<open>int\<close> on each string, and the cell is
    given by what \<open>int\<close> makes of its string: the integer it reads, where that fits 64
    bits (\<open>YIntText\<close>), or the fact that it rejects the string (\<open>YBadText\<close>), as it
    does for \<open>unknown\<close>.
\<close>

datatype year_cell = YNaN | YInf | YFloat rat | YInt "64 word" | YIntText "64 word" | YBadText

record movie =
  Title :: "string option"
  Year :: year_cell
  Genre :: "string option"
  Rating :: "rat option"
  Duration :: "rat option"
  Director :: "string option"
  Cast :: "string option"
  Poster :: "string option"

text \<open>The rows after line 15 carry the integer year, the rows after line 37 the motif too.\<close>

record ymovie = movie +
  Year_int :: int

record nmovie = ymovie +
  Motif :: string

subsection \<open>Strings\<close>

text \<open>\<open>key in s\<close> on two strings: a scan for the first position where \<open>key\<close> starts.\<close>

fun str_contains :: "string \<Rightarrow> string \<Rightarrow> bool" where
  "str_contains key [] = (key = [])"
| "str_contains key (c # cs) = (prefix key (c # cs) \<or> str_contains key cs)"

text \<open>\<open>s.split(', ')\<close>: matches of the separator are taken left to right, without overlap.\<close>

fun str_split :: "string \<Rightarrow> string list" where
  "str_split [] = [[]]"
| "str_split [c] = [[c]]"
| "str_split (c # d # cs) =
     (if c = CHR '','' \<and> d = CHR '' '' then [] # str_split cs
      else (case str_split (d # cs) of
              [] \<Rightarrow> [[c]]
            | t # ts \<Rightarrow> (c # t) # ts))"

text \<open>
  \<open>s.strip()\<close> removes the whitespace characters of Unicode from both ends. In UTF-8 they
  take one, two or three bytes: U+0009 to U+000D, U+001C to U+001F and U+0020; U+0085 and
  U+00A0; U+1680, U+2000 to U+200A, U+2028, U+2029, U+202F, U+205F and U+3000.
\<close>

definition space1 :: "char \<Rightarrow> bool" where
  "space1 a = (a \<in> set [CHR 0x09, CHR 0x0A, CHR 0x0B, CHR 0x0C, CHR 0x0D,
                           CHR 0x1C, CHR 0x1D, CHR 0x1E, CHR 0x1F, CHR 0x20])"

definition space2 :: "char \<Rightarrow> char \<Rightarrow> bool" where
  "space2 a b = (a = CHR 0xC2 \<and> (b = CHR 0x85 \<or> b = CHR 0xA0))"

definition space3 :: "char \<Rightarrow> char \<Rightarrow> char \<Rightarrow> bool" where
  "space3 a b c =
     ((a = CHR 0xE1 \<and> b = CHR 0x9A \<and> c = CHR 0x80)
      \<or> (a = CHR 0xE2 \<and> b = CHR 0x80
          \<and> c \<in> set [CHR 0x80, CHR 0x81, CHR 0x82, CHR 0x83, CHR 0x84, CHR 0x85, CHR 0x86,
                       CHR 0x87, CHR 0x88, CHR 0x89, CHR 0x8A, CHR 0xA8, CHR 0xA9, CHR 0xAF])
      \<or> (a = CHR 0xE2 \<and> b = CHR 0x81 \<and> c = CHR 0x9F)
      \<or> (a = CHR 0xE3 \<and> b = CHR 0x80 \<and> c = CHR 0x80))"

fun lstrip :: "string \<Rightarrow> string" where
  "lstrip (a # b # c # s) =
     (if space1 a then lstrip (b # c # s)
      else if space2 a b then lstrip (c # s)
      else if space3 a b c then lstrip s
      else a # b # c # s)"
| "lstrip [a, b] = (if space1 a then lstrip [b] else if space2 a b then [] else [a, b])"
| "lstrip [a] = (if space1 a then [] else [a])"
| "lstrip [] = []"

text \<open>The same from the other end, on the reversed string: the last byte comes first.\<close>

fun rstrip_rev :: "string \<Rightarrow> string" where
  "rstrip_rev (c # b # a # s) =
     (if space1 c then rstrip_rev (b # a # s)
      else if space2 b c then rstrip_rev (a # s)
      else if space3 a b c then rstrip_rev s
      else c # b # a # s)"
| "rstrip_rev [b, a] = (if space1 b then rstrip_rev [a] else if space2 a b then [] else [b, a])"
| "rstrip_rev [a] = (if space1 a then [] else [a])"
| "rstrip_rev [] = []"

definition strip :: "string \<Rightarrow> string" where
  "strip s = rev (rstrip_rev (rev (lstrip s)))"

subsection \<open>Loading: the subject filter\<close>

text \<open>
  \<open>df['Cast'].str.contains('Nicolas Cage', na=False)\<close>: the pattern has no regular
  expression operator, so the search is a plain substring search; a missing cell gives
  False.

  The accessor \<open>.str\<close> exists on a column of text only. A Cast column of which no cell
  holds text is read as a column of numbers, all missing, and \<open>.str\<close> raises
  AttributeError. The columns of a table without rows are text columns.
\<close>

definition contains_na_False :: "string \<Rightarrow> string option \<Rightarrow> bool" where
  "contains_na_False pat cell = (case cell of None \<Rightarrow> False | Some s \<Rightarrow> str_contains pat s)"

definition load_data :: "movie list \<Rightarrow> py_error + movie list" where
  "load_data df =
     (if df \<noteq> [] \<and> list_all (\<lambda>r. Cast r = None) df then Inl AttributeError
      else Inr (filter (\<lambda>r. contains_na_False ''Nicolas Cage'' (Cast r)) df))"

subsection \<open>Motif\<close>

definition MOTIF_MAP :: "(string \<times> string) list" where
  "MOTIF_MAP =
     [(''Action'', ''Action''), (''Adventure'', ''Adventure''), (''Comedy'', ''Comedy''),
      (''Drama'', ''Drama''), (''Thriller'', ''Thriller''), (''Crime'', ''Crime''),
      (''Fantasy'', ''Fantasy''), (''Family'', ''Family'')]"

text \<open>
  The loop of \<open>assign_motif\<close> over the items of the dictionary, in insertion order.
  \<open>key in genres\<close> raises TypeError when \<open>genres\<close> is the float NaN of a missing cell.
\<close>

fun motif_loop :: "(string \<times> string) list \<Rightarrow> string option \<Rightarrow> py_error + string" where
  "motif_loop [] genres = Inr ''Other''"
| "motif_loop ((key, label) # items) None = Inl TypeError"
| "motif_loop ((key, label) # items) (Some g) =
     (if str_contains key g then Inr label else motif_loop items (Some g))"

definition assign_motif :: "string option \<Rightarrow> py_error + string" where
  "assign_motif genres = motif_loop MOTIF_MAP genres"

subsection \<open>Normalisation: year, poster, motif\<close>

definition dropna_Year :: "movie list \<Rightarrow> movie list" where
  "dropna_Year df = filter (\<lambda>r. Year r \<noteq> YNaN) df"

text \<open>
  \<open>astype(int)\<close> on one cell, to a signed integer of 64 bits. A missing or infinite value
  cannot be cast. A finite floating point number is cut towards zero; where the result
  does not fit 64 bits, the conversion of the processor gives \<open>- 2 ^ 63\<close>. The bits of an
  integer are kept and read as signed. A string is cast by \<open>int\<close>, which raises
  ValueError on a string it rejects.
\<close>

definition astype_int :: "year_cell \<Rightarrow> py_error + int" where
  "astype_int y =
     (case y of
        YNaN \<Rightarrow> Inl ValueError
      | YInf \<Rightarrow> Inl ValueError
      | YFloat q \<Rightarrow>
          (let t = (if q < 0 then - \<lfloor>- q\<rfloor> else \<lfloor>q\<rfloor>)
           in Inr (if - (2 ^ 63) \<le> t \<and> t < 2 ^ 63 then t else - (2 ^ 63)))
      | YInt w \<Rightarrow> Inr (sint w)
      | YIntText w \<Rightarrow> Inr (sint w)
      | YBadText \<Rightarrow> Inl ValueError)"

text \<open>A column operation that can raise stops at the first row that does.\<close>

fun apply_rows :: "('a \<Rightarrow> py_error + 'b) \<Rightarrow> 'a list \<Rightarrow> py_error + 'b list" where
  "apply_rows f [] = Inr []"
| "apply_rows f (x # xs) =
     (case f x of
        Inl e \<Rightarrow> Inl e
      | Inr y \<Rightarrow> (case apply_rows f xs of Inl e \<Rightarrow> Inl e | Inr ys \<Rightarrow> Inr (y # ys)))"

definition DEFAULT_POSTER_URL :: string where
  "DEFAULT_POSTER_URL = ''https://via.placeholder.com/300x450?text=No+Image''"

definition poster_or_default :: "string option \<Rightarrow> string option" where
  "poster_or_default url =
     (case url of
        None \<Rightarrow> Some DEFAULT_POSTER_URL
      | Some u \<Rightarrow> if strip u = [] then Some DEFAULT_POSTER_URL else Some u)"

definition with_Year_int :: "movie \<Rightarrow> py_error + ymovie" where
  "with_Year_int r =
     (case astype_int (Year r) of
        Inl e \<Rightarrow> Inl e
      | Inr y \<Rightarrow> Inr (movie.extend r (ymovie.fields y)))"

definition with_Poster :: "ymovie \<Rightarrow> ymovie" where
  "with_Poster m = m\<lparr>Poster := poster_or_default (Poster m)\<rparr>"

definition with_Motif :: "ymovie \<Rightarrow> py_error + nmovie" where
  "with_Motif m =
     (case assign_motif (Genre m) of
        Inl e \<Rightarrow> Inl e
      | Inr l \<Rightarrow> Inr (ymovie.extend m (nmovie.fields l)))"

text \<open>
  Lines 13 to 37 of the script, statement by statement: the rows of the subject without a
  missing Year, then the three derived columns, each computed for all rows before the
  next one starts.
\<close>

definition normalize :: "movie list \<Rightarrow> py_error + nmovie list" where
  "normalize df =
     (case load_data df of
        Inl e \<Rightarrow> Inl e
      | Inr rows \<Rightarrow>
          (case apply_rows with_Year_int (dropna_Year rows) of
             Inl e \<Rightarrow> Inl e
           | Inr ms \<Rightarrow> apply_rows with_Motif (map with_Poster ms)))"

subsection \<open>Sidebar and interactive filter\<close>

text \<open>
  The bounds of the year slider are \<open>min(years)\<close> and \<open>max(years)\<close>; both raise
  ValueError on an empty list.
\<close>

definition slider_bounds :: "nmovie list \<Rightarrow> py_error + int \<times> int" where
  "slider_bounds movies =
     (case sort (remdups (map Year_int movies)) of
        [] \<Rightarrow> Inl ValueError
      | y # ys \<Rightarrow> Inr (fold min ys y, fold max ys y))"

text \<open>Lines 59 to 63: \<open>yr\<close> and \<open>selected_motif\<close> are what the two widgets returned.\<close>

definition apply_filters :: "int \<times> int \<Rightarrow> string \<Rightarrow> nmovie list \<Rightarrow> nmovie list" where
  "apply_filters yr selected_motif movies =
     (let filtered = filter (\<lambda>m. fst yr \<le> Year_int m \<and> Year_int m \<le> snd yr) movies
      in if selected_motif \<noteq> ''All''
         then filter (\<lambda>m. Motif m = selected_motif) filtered
         else filtered)"

subsection \<open>Counting and ranking\<close>

fun dropna :: "'a option list \<Rightarrow> 'a list" where
  "dropna [] = []"
| "dropna (None # xs) = dropna xs"
| "dropna (Some x # xs) = x # dropna xs"

text \<open>
  Counting goes through a table that keeps its keys in the order in which they first
  appear: a new key is appended with count 1, a known key has its count raised.
\<close>

fun bump :: "'a \<Rightarrow> ('a \<times> nat) list \<Rightarrow> ('a \<times> nat) list" where
  "bump k [] = [(k, 1)]"
| "bump k ((k', c) # t) = (if k = k' then (k', Suc c) # t else (k', c) # bump k t)"

definition count_table :: "'a list \<Rightarrow> ('a \<times> nat) list" where
  "count_table xs = foldl (\<lambda>t k. bump k t) [] xs"

text \<open>
  Sorting by count, largest first. The sort is modelled as stable: entries with the same
  count keep the order they had.
\<close>

definition by_count_desc :: "('a \<times> nat) list \<Rightarrow> ('a \<times> nat) list" where
  "by_count_desc t = sort_key (\<lambda>kc. - int (snd kc)) t"

text \<open>\<open>value_counts()\<close>: missing values are left out, the counts are sorted.\<close>

definition value_counts :: "'a option list \<Rightarrow> ('a \<times> nat) list" where
  "value_counts col = by_count_desc (count_table (dropna col))"

text \<open>\<open>nlargest(n)\<close> on a series of counts, with the default \<open>keep='first'\<close>.\<close>

definition nlargest_counts :: "nat \<Rightarrow> ('a \<times> nat) list \<Rightarrow> ('a \<times> nat) list" where
  "nlargest_counts n t = take n (by_count_desc t)"

text \<open>\<open>.str.split(', ').explode()\<close>: a missing cell stays one missing entry.\<close>

definition split_explode :: "string option list \<Rightarrow> string option list" where
  "split_explode col =
     concat (map (\<lambda>cell. case cell of None \<Rightarrow> [None] | Some s \<Rightarrow> map Some (str_split s)) col)"

text \<open>
  \<open>nlargest(n, 'Rating')\<close> on the frame: the rated rows by falling rating, rows of equal
  rating in frame order, then the rows without a rating, and of all these the first n.
\<close>

definition neg_Rating :: "nmovie \<Rightarrow> rat" where
  "neg_Rating m = (case Rating m of None \<Rightarrow> 0 | Some v \<Rightarrow> - v)"

definition ranked :: "nmovie list \<Rightarrow> nmovie list" where
  "ranked df = sort_key neg_Rating (filter (\<lambda>m. Rating m \<noteq> None) df)
               @ filter (\<lambda>m. Rating m = None) df"

definition nlargest_Rating :: "nat \<Rightarrow> nmovie list \<Rightarrow> nmovie list" where
  "nlargest_Rating n df = take n (ranked df)"

subsection \<open>Descriptive statistics\<close>

text \<open>
  \<open>mean()\<close>, \<open>min()\<close> and \<open>max()\<close> skip missing values; with nothing left they give NaN.
  The mean is the exact quotient: the rounding of the floating point sum and division
  is not modelled.
\<close>

definition series_mean :: "rat option list \<Rightarrow> rat option" where
  "series_mean col =
     (case dropna col of
        [] \<Rightarrow> None
      | v # vs \<Rightarrow> Some (sum_list (v # vs) / of_nat (length (v # vs))))"

definition series_min :: "rat option list \<Rightarrow> rat option" where
  "series_min col = (case dropna col of [] \<Rightarrow> None | v # vs \<Rightarrow> Some (fold min vs v))"

definition series_max :: "rat option list \<Rightarrow> rat option" where
  "series_max col = (case dropna col of [] \<Rightarrow> None | v # vs \<Rightarrow> Some (fold max vs v))"

subsection \<open>The result tables\<close>

record highlight =
  top5_Title :: "string option"
  top5_Year_int :: int
  top5_Rating :: "rat option"
  top5_Poster :: "string option"
  top5_Genre :: "string option"

definition highlight_of :: "nmovie \<Rightarrow> highlight" where
  "highlight_of m =
     \<lparr>top5_Title = Title m, top5_Year_int = Year_int m, top5_Rating = Rating m,
      top5_Poster = Poster m, top5_Genre = Genre m\<rparr>"

text \<open>Line 68: the sizes of the groups of equal year, the groups in rising order of the year.\<close>

definition counts :: "nmovie list \<Rightarrow> (int \<times> nat) list" where
  "counts filtered = sort_key fst (count_table (map Year_int filtered))"

text \<open>
  Lines 85 and 86. The frame that reaches them comes from a normalised frame with at
  least one row, whose Genre and Cast cells all hold text, so both columns are text
  columns and \<open>.str\<close> is defined on them, also when the selection leaves no row.
\<close>

definition top_genres :: "nmovie list \<Rightarrow> (string \<times> nat) list" where
  "top_genres filtered = nlargest_counts 5 (value_counts (split_explode (map Genre filtered)))"

text \<open>Line 122.\<close>

definition rating_counts :: "nmovie list \<Rightarrow> (rat \<times> nat) list" where
  "rating_counts filtered = sort_key fst (value_counts (map Rating filtered))"

text \<open>
  Line 151. The two statements after it only turn year and rating into text for the
  captions; they are left to the display.
\<close>

definition top5 :: "nmovie list \<Rightarrow> highlight list" where
  "top5 filtered = map highlight_of (nlargest_Rating 5 filtered)"

text \<open>Lines 165 and 167 to 170.\<close>

definition director_df :: "nmovie list \<Rightarrow> (string \<times> nat) list" where
  "director_df filtered = nlargest_counts 5 (value_counts (map Director filtered))"

definition co_stars_df :: "nmovie list \<Rightarrow> (string \<times> nat) list" where
  "co_stars_df filtered =
     nlargest_counts 5
       (value_counts (filter (\<lambda>s. s \<noteq> Some ''Nicolas Cage'')
                             (split_explode (map Cast filtered))))"

text \<open>
  Everything the script computes from the filtered rows. The duration histogram is drawn
  by the chart library from the rows themselves, so its table is the Duration column.
\<close>

record tables =
  t_counts :: "(int \<times> nat) list"
  t_top_genres :: "(string \<times> nat) list"
  t_avg_rating :: "rat option"
  t_min_rating :: "rat option"
  t_max_rating :: "rat option"
  t_avg_duration :: "rat option"
  t_min_duration :: "rat option"
  t_max_duration :: "rat option"
  t_rating_counts :: "(rat \<times> nat) list"
  t_duration_chart :: "rat option list"
  t_top5 :: "highlight list"
  t_director_df :: "(string \<times> nat) list"
  t_co_stars_df :: "(string \<times> nat) list"

definition aggregate :: "nmovie list \<Rightarrow> tables" where
  "aggregate filtered =
     \<lparr>t_counts = counts filtered,
      t_top_genres = top_genres filtered,
      t_avg_rating = series_mean (map Rating filtered),
      t_min_rating = series_min (map Rating filtered),
      t_max_rating = series_max (map Rating filtered),
      t_avg_duration = series_mean (map Duration filtered),
      t_min_duration = series_min (map Duration filtered),
      t_max_duration = series_max (map Duration filtered),
      t_rating_counts = rating_counts filtered,
      t_duration_chart = map Duration filtered,
      t_top5 = top5 filtered,
      t_director_df = director_df filtered,
      t_co_stars_df = co_stars_df filtered\<rparr>"

text \<open>
  The script from the table read from the file to the result tables, for the values the
  two sidebar widgets return.
\<close>

definition script :: "movie list \<Rightarrow> int \<times> int \<Rightarrow> string \<Rightarrow> py_error + tables" where
  "script df yr selected_motif =
     (case normalize df of
        Inl e \<Rightarrow> Inl e
      | Inr movies \<Rightarrow>
          (case slider_bounds movies of
             Inl e \<Rightarrow> Inl e
           | Inr bounds \<Rightarrow> Inr (aggregate (apply_filters yr selected_motif movies))))"

subsection \<open>What a normalised row owes to the row it comes from\<close>

definition normalized_from :: "movie \<Rightarrow> nmovie \<Rightarrow> bool" where
  "normalized_from r m =
     (astype_int (Year r) = Inr (Year_int m) \<and> assign_motif (Genre r) = Inr (Motif m)
      \<and> Poster m = poster_or_default (Poster r)
      \<and> Title m = Title r \<and> Year m = Year r \<and> Genre m = Genre r \<and> Rating m = Rating r
      \<and> Duration m = Duration r \<and> Director m = Director r \<and> Cast m = Cast r)"

subsection \<open>Sample tables\<close>

text \<open>
  Five rows of a file: one of another actor, one of the subject without a year, three of
  the subject with a year. Of these one has no Poster, one a Poster of a space and a
  no-break space, and its Year is not a whole number.
\<close>

definition example_df :: "movie list" where
  "example_df =
     [\<lparr>Title = Some ''Face/Off'', Year = YFloat 1997, Genre = Some ''Action, Thriller'',
       Rating = Some (73 / 10), Duration = Some 138, Director = Some ''John Woo'',
       Cast = Some ''John Travolta, Nicolas Cage'', Poster = None\<rparr>,
      \<lparr>Title = Some ''Untitled'', Year = YNaN, Genre = Some ''Drama'',
       Rating = None, Duration = None, Director = None,
       Cast = Some ''Nicolas Cage'', Poster = Some ''p.jpg''\<rparr>,
      \<lparr>Title = Some ''Big'', Year = YFloat 1988, Genre = Some ''Comedy'',
       Rating = Some (73 / 10), Duration = Some 104, Director = Some ''Penny Marshall'',
       Cast = Some ''Tom Hanks'', Poster = Some ''big.jpg''\<rparr>,
      \<lparr>Title = Some ''Raising Arizona'', Year = YFloat (3975 / 2), Genre = Some ''Comedy, Crime'',
       Rating = Some (73 / 10), Duration = Some 94, Director = Some ''Joel Coen'',
       Cast = Some ''Nicolas Cage, Holly Hunter'', Poster = Some [CHR '' '', CHR 0xC2, CHR 0xA0]\<rparr>,
      \<lparr>Title = Some ''Pig'', Year = YFloat 2021, Genre = Some ''Drama, Mystery'',
       Rating = Some (69 / 10), Duration = Some 92, Director = Some ''Michael Sarnoski'',
       Cast = Some ''Nicolas Cage, Alex Wolff'', Poster = Some ''pig.jpg''\<rparr>]"

text \<open>The three rows that normalisation makes of them.\<close>

definition example_movies :: "nmovie list" where
  "example_movies =
     [\<lparr>Title = Some ''Face/Off'', Year = YFloat 1997, Genre = Some ''Action, Thriller'',
       Rating = Some (73 / 10), Duration = Some 138, Director = Some ''John Woo'',
       Cast = Some ''John Travolta, Nicolas Cage'',
       Poster = Some ''https://via.placeholder.com/300x450?text=No+Image'',
       Year_int = 1997, Motif = ''Action''\<rparr>,
      \<lparr>Title = Some ''Raising Arizona'', Year = YFloat (3975 / 2), Genre = Some ''Comedy, Crime'',
       Rating = Some (73 / 10), Duration = Some 94, Director = Some ''Joel Coen'',
       Cast = Some ''Nicolas Cage, Holly Hunter'',
       Poster = Some ''https://via.placeholder.com/300x450?text=No+Image'',
       Year_int = 1987, Motif = ''Comedy''\<rparr>,
      \<lparr>Title = Some ''Pig'', Year = YFloat 2021, Genre = Some ''Drama, Mystery'',
       Rating = Some (69 / 10), Duration = Some 92, Director = Some ''Michael Sarnoski'',
       Cast = Some ''Nicolas Cage, Alex Wolff'', Poster = Some ''pig.jpg'',
       Year_int = 2021, Motif = ''Drama''\<rparr>]"

definition untagged_row :: movie where
  "untagged_row =
     \<lparr>Title = Some ''Untagged'', Year = YFloat 2001, Genre = None,
      Rating = Some 5, Duration = Some 90, Director = None,
      Cast = Some ''Nicolas Cage'', Poster = None\<rparr>"

definition undated_row :: movie where
  "undated_row =
     \<lparr>Title = Some ''Undated'', Year = YBadText, Genre = Some ''Drama'',
      Rating = Some 5, Duration = Some 90, Director = None,
      Cast = Some ''Nicolas Cage'', Poster = None\<rparr>"

text \<open>A table with one row, which does not name its cast.\<close>

definition no_cast_df :: "movie list" where
  "no_cast_df =
     [\<lparr>Title = Some ''Pig'', Year = YInt 2021, Genre = Some ''Drama, Mystery'',
       Rating = Some (69 / 10), Duration = Some 92, Director = Some ''Michael Sarnoski'',
       Cast = None, Poster = Some ''pig.jpg''\<rparr>]"

definition other_actor_df :: "movie list" where
  "other_actor_df =
     [\<lparr>Title = Some ''Big'', Year = YFloat 1988, Genre = Some ''Comedy'',
       Rating = Some (73 / 10), Duration = Some 104, Director = Some ''Penny Marshall'',
       Cast = Some ''Tom Hanks'', Poster = Some ''big.jpg''\<rparr>]"

definition empty_tables :: tables where
  "empty_tables =
     \<lparr>t_counts = [], t_top_genres = [],
      t_avg_rating = None, t_min_rating = None, t_max_rating = None,
      t_avg_duration = None, t_min_duration = None, t_max_duration = None,
      t_rating_counts = [], t_duration_chart = [], t_top5 = [],
      t_director_df = [], t_co_stars_df = []\<rparr>"

text \<open>The two films of the example in the specification.\<close>

definition two_films :: "movie list" where
  "two_films =
     [\<lparr>Title = Some ''A'', Year = YInt 2007, Genre = Some ''Action, Thriller'',
       Rating = Some (17 / 2), Duration = Some 100, Director = Some ''X'',
       Cast = Some ''Nicolas Cage, John Travolta'', Poster = Some ''a.jpg''\<rparr>,
      \<lparr>Title = Some ''B'', Year = YInt 2007, Genre = Some ''Comedy'',
       Rating = Some 6, Duration = Some 90, Director = Some ''Y'',
       Cast = Some ''Nicolas Cage, Sarah Jessica Parker'', Poster = Some ''b.jpg''\<rparr>]"

subsection \<open>Sample tables for the rankings\<close>

text \<open>Seven rows with ratings 7, 8, none, 7, 9, 7, 7: the fifth place is decided among equals.\<close>

definition rated_row :: "string \<Rightarrow> int \<Rightarrow> rat option \<Rightarrow> nmovie" where
  "rated_row t y r =
     \<lparr>Title = Some t, Year = YFloat (of_int y), Genre = Some ''Drama'', Rating = r,
      Duration = Some 100, Director = Some ''D'', Cast = Some ''Nicolas Cage'',
      Poster = Some ''p.jpg'', Year_int = y, Motif = ''Drama''\<rparr>"

definition rated_example :: "nmovie list" where
  "rated_example =
     [rated_row ''A'' 2000 (Some 7), rated_row ''B'' 2001 (Some 8), rated_row ''C'' 2002 None,
      rated_row ''D'' 2003 (Some 7), rated_row ''E'' 2004 (Some 9), rated_row ''F'' 2005 (Some 7),
      rated_row ''G'' 2006 (Some 7)]"

section \<open>Properties\<close>

subsection \<open>Strings\<close>

lemma str_contains_sublist: "str_contains key s \<longleftrightarrow> sublist key s"
  by (induction s) (auto simp: sublist_Cons_right)

subsection \<open>Motif\<close>

lemma motif_loop_find:
  "motif_loop items (Some g) =
     Inr (case find (\<lambda>kl. sublist (fst kl) g) items of None \<Rightarrow> ''Other'' | Some kl \<Rightarrow> snd kl)"
  by (induction items) (auto simp: str_contains_sublist)

text \<open>
  C2. For a present Genre string the motif is the first label of the list Action,
  Adventure, Comedy, Drama, Thriller, Crime, Fantasy, Family that occurs in it as a
  substring, whatever the order of the genres in the string, and Other when none
  occurs; the Genre "Drama, Action" gives Action.
\<close>

theorem assign_motif_first_candidate:
  "assign_motif (Some g) =
     Inr (case find (\<lambda>l. sublist l g)
                 [''Action'', ''Adventure'', ''Comedy'', ''Drama'',
                  ''Thriller'', ''Crime'', ''Fantasy'', ''Family''] of
            None \<Rightarrow> ''Other''
          | Some l \<Rightarrow> l)
   \<and> assign_motif (Some ''Drama, Action'') = Inr ''Action''"
proof
  show "assign_motif (Some g) =
     Inr (case find (\<lambda>l. sublist l g)
                 [''Action'', ''Adventure'', ''Comedy'', ''Drama'',
                  ''Thriller'', ''Crime'', ''Fantasy'', ''Family''] of
            None \<Rightarrow> ''Other''
          | Some l \<Rightarrow> l)"
    unfolding assign_motif_def motif_loop_find MOTIF_MAP_def by simp
  show "assign_motif (Some ''Drama, Action'') = Inr ''Action''"
    unfolding assign_motif_def MOTIF_MAP_def by simp
qed

subsection \<open>Subject filter\<close>

lemma contains_na_False_sublist:
  "contains_na_False pat cell = (case cell of None \<Rightarrow> False | Some s \<Rightarrow> sublist pat s)"
  by (simp add: contains_na_False_def str_contains_sublist split: option.splits)

text \<open>
  C4, as the specification states it, fails: on a table with rows of which none names
  its cast, the subject filter raises AttributeError.
\<close>

theorem load_data_no_cast_raises:
  "load_data no_cast_df = Inl AttributeError"
  by (simp add: load_data_def no_cast_df_def)

lemma load_data_cases:
  "load_data df =
     (if df \<noteq> [] \<and> list_all (\<lambda>r. Cast r = None) df then Inl AttributeError
      else Inr (filter (\<lambda>r. case Cast r of None \<Rightarrow> False | Some s \<Rightarrow> sublist ''Nicolas Cage'' s)
                  df))"
  by (simp add: load_data_def contains_na_False_sublist)

lemma load_data_Inr:
  assumes "load_data df = Inr rows"
  shows "rows = filter (\<lambda>r. contains_na_False ''Nicolas Cage'' (Cast r)) df"
  using assms by (simp add: load_data_def split: if_splits)

lemma example_df_has_cast: "example_df = [] \<or> (\<exists>r\<in>set example_df. Cast r \<noteq> None)"
  by (simp add: example_df_def)

text \<open>
  C4, amended. The subject's name is fixed by the script to Nicolas Cage. On a table
  that has no rows or has text in at least one Cast cell, the subject filter raises
  nothing and returns exactly the rows whose Cast cell holds that name as a substring,
  compared byte by byte; no row with a missing Cast cell passes.
\<close>

theorem load_data_subject_filter:
  assumes "df = [] \<or> (\<exists>r\<in>set df. Cast r \<noteq> None)"
  shows "load_data df =
           Inr (filter (\<lambda>r. case Cast r of None \<Rightarrow> False | Some s \<Rightarrow> sublist ''Nicolas Cage'' s)
                  df)
         \<and> filter (\<lambda>r. Cast r = None)
             (filter (\<lambda>r. case Cast r of None \<Rightarrow> False | Some s \<Rightarrow> sublist ''Nicolas Cage'' s)
                df) = []"
proof
  from assms have "\<not> (df \<noteq> [] \<and> list_all (\<lambda>r. Cast r = None) df)"
    by (auto simp: list_all_iff)
  then show "load_data df =
           Inr (filter (\<lambda>r. case Cast r of None \<Rightarrow> False | Some s \<Rightarrow> sublist ''Nicolas Cage'' s)
                  df)"
    by (simp only: load_data_cases if_False)
  show "filter (\<lambda>r. Cast r = None)
             (filter (\<lambda>r. case Cast r of None \<Rightarrow> False | Some s \<Rightarrow> sublist ''Nicolas Cage'' s)
                df) = []"
    by (induction df) (auto split: option.splits)
qed

theorem load_data_subject_filter_witness:
  "(example_df = [] \<or> (\<exists>r\<in>set example_df. Cast r \<noteq> None))
   \<and> load_data example_df =
       Inr (filter (\<lambda>r. case Cast r of None \<Rightarrow> False | Some s \<Rightarrow> sublist ''Nicolas Cage'' s)
              example_df)
   \<and> filter (\<lambda>r. Cast r = None)
       (filter (\<lambda>r. case Cast r of None \<Rightarrow> False | Some s \<Rightarrow> sublist ''Nicolas Cage'' s)
          example_df) = []"
  using load_data_subject_filter[OF example_df_has_cast] example_df_has_cast
  by (intro conjI) (rule example_df_has_cast, simp_all)

subsection \<open>Interactive filter\<close>

text \<open>
  C9. The interactive filter is idempotent: applied to its own output with the same year
  range and the same motif (or the sentinel All) it returns that output.
\<close>

theorem apply_filters_idempotent:
  "apply_filters yr selected_motif (apply_filters yr selected_motif movies) =
     apply_filters yr selected_motif movies"
  by (simp add: apply_filters_def Let_def)

subsection \<open>Column operations that can raise\<close>

lemma apply_rows_Inr:
  "apply_rows f xs = Inr ys \<longleftrightarrow> map f xs = map Inr ys"
proof (induction xs arbitrary: ys)
  case Nil
  then show ?case by auto
next
  case (Cons x xs)
  show ?case
  proof (cases "f x")
    case (Inl e)
    then show ?thesis by (cases ys) auto
  next
    case (Inr y)
    show ?thesis
    proof (cases "apply_rows f xs")
      case (Inl e)
      with Cons.IH have "\<And>zs. map f xs \<noteq> map Inr zs" by auto
      with Inl Inr show ?thesis by (cases ys) auto
    next
      case r: (Inr zs)
      with Cons.IH[of zs] have "map f xs = map Inr zs" by simp
      with r Inr show ?thesis by (cases ys) (auto simp: inj_map_eq_map)
    qed
  qed
qed

lemma apply_rows_Inl:
  assumes "\<And>x e. x \<in> set xs \<Longrightarrow> f x = Inl e \<Longrightarrow> e = err"
    and "x \<in> set xs" and "f x = Inl e"
  shows "apply_rows f xs = Inl err"
  using assms
proof (induction xs)
  case Nil
  then show ?case by simp
next
  case (Cons a xs)
  show ?case
  proof (cases "f a")
    case (Inl e')
    with Cons.prems(1)[of a e'] show ?thesis by simp
  next
    case (Inr y)
    with Cons.prems have "x \<in> set xs" by auto
    with Cons have "apply_rows f xs = Inl err" by auto
    with Inr show ?thesis by simp
  qed
qed

lemma map_eq_map_list_all2:
  "map f xs = map g ys \<longleftrightarrow> list_all2 (\<lambda>x y. f x = g y) xs ys"
proof -
  have "map f xs = map g ys \<longleftrightarrow> list_all2 (=) (map f xs) (map g ys)"
    by (simp add: list.rel_eq)
  then show ?thesis by (simp add: list.rel_map)
qed

lemma list_all2_pick:
  assumes "list_all2 P xs ys" and "x \<in> set xs"
  shows "\<exists>y\<in>set ys. P x y"
  using assms by (induction rule: list_all2_induct) auto

lemma list_all2_pick2:
  assumes "list_all2 P xs ys" and "y \<in> set ys"
  shows "\<exists>x\<in>set xs. P x y"
  using assms by (induction rule: list_all2_induct) auto

subsection \<open>Normalisation\<close>

lemma normalized_from_step:
  assumes "with_Year_int r = Inr y" and "with_Motif (with_Poster y) = Inr m"
  shows "normalized_from r m"
  using assms
  by (auto simp: normalized_from_def with_Year_int_def with_Motif_def with_Poster_def
      movie.defs ymovie.defs nmovie.defs split: sum.splits)

lemma normalize_Inr:
  assumes "normalize df = Inr movies"
  shows "\<exists>rows. load_data df = Inr rows \<and> list_all2 normalized_from (dropna_Year rows) movies"
proof -
  from assms obtain rows ys where
    rows: "load_data df = Inr rows"
    and ys: "apply_rows with_Year_int (dropna_Year rows) = Inr ys"
    and ms: "apply_rows with_Motif (map with_Poster ys) = Inr movies"
    by (auto simp: normalize_def split: sum.splits)
  from ys have a: "list_all2 (\<lambda>r y. with_Year_int r = Inr y) (dropna_Year rows) ys"
    by (simp add: apply_rows_Inr map_eq_map_list_all2)
  from ms have b: "list_all2 (\<lambda>y m. with_Motif (with_Poster y) = Inr m) ys movies"
    by (simp add: apply_rows_Inr map_eq_map_list_all2 list.rel_map)
  from a b have
    "list_all2 ((\<lambda>r y. with_Year_int r = Inr y) OO (\<lambda>y m. with_Motif (with_Poster y) = Inr m))
       (dropna_Year rows) movies"
    by (auto simp: list.rel_compp)
  then have "list_all2 normalized_from (dropna_Year rows) movies"
    by (rule list_all2_mono) (auto intro: normalized_from_step)
  with rows show ?thesis by blast
qed

text \<open>
  Trimming on bytes: a no-break space, a letter, a space and an ideographic space leave
  the letter; a string of whitespace only leaves nothing.
\<close>

lemma strip_examples:
  "strip [CHR 0xC2, CHR 0xA0, CHR ''a'', CHR '' '', CHR 0xE3, CHR 0x80, CHR 0x80] = ''a''"
  "strip [CHR '' '', CHR 0xC2, CHR 0xA0] = []"
  "strip '' a b '' = ''a b''"
  by (simp_all add: strip_def space1_def space2_def space3_def)

text \<open>
  The cast on sample cells: a number between two integers, numbers that do not fit 64
  bits, an unsigned integer with the highest bit set.
\<close>

lemma floor_rat_numeral: "\<lfloor>numeral a / numeral b :: rat\<rfloor> = numeral a div numeral b"
  by (metis floor_divide_of_int_eq of_int_numeral)

lemma astype_int_examples:
  "astype_int (YFloat (3975 / 2)) = Inr 1987"
  "astype_int (YFloat (- 5 / 2)) = Inr (- 2)"
  "astype_int (YFloat (10 ^ 30)) = Inr (- (2 ^ 63))"
  "astype_int (YFloat (2 ^ 63)) = Inr (- (2 ^ 63))"
  "astype_int (YInt (2 ^ 63)) = Inr (- (2 ^ 63))"
  "astype_int (YInt 2007) = Inr 2007"
  "astype_int YInf = Inl ValueError"
  by (simp_all add: astype_int_def Let_def floor_rat_numeral)

lemma load_data_example:
  "load_data example_df = Inr [example_df ! 0, example_df ! 1, example_df ! 3, example_df ! 4]"
  by (simp add: example_df_def load_data_def contains_na_False_def)

lemma normalize_example: "normalize example_df = Inr example_movies"
  by (simp add: normalize_def example_df_def example_movies_def load_data_def dropna_Year_def
      contains_na_False_def with_Year_int_def astype_int_def with_Poster_def with_Motif_def
      poster_or_default_def DEFAULT_POSTER_URL_def strip_def space1_def space2_def space3_def
      assign_motif_def MOTIF_MAP_def movie.defs ymovie.defs nmovie.defs floor_eq_iff Let_def)

lemma poster_or_default_cases:
  "poster_or_default p =
     (if p = None \<or> (\<exists>u. p = Some u \<and> strip u = [])
      then Some ''https://via.placeholder.com/300x450?text=No+Image''
      else p)"
  by (cases p) (simp_all add: poster_or_default_def DEFAULT_POSTER_URL_def)

lemma strip_Nil [simp]: "strip [] = []"
  by (simp add: strip_def)

lemma normalize_text_columns:
  assumes "normalize df = Inr movies"
  shows "list_all (\<lambda>m. Genre m \<noteq> None \<and> Cast m \<noteq> None) movies"
  unfolding list_all_iff
proof
  fix m
  assume m: "m \<in> set movies"
  from normalize_Inr[OF assms] obtain rows where
    rows: "load_data df = Inr rows"
    and rel: "list_all2 normalized_from (dropna_Year rows) movies"
    by blast
  from list_all2_pick2[OF rel m] obtain r where
    r: "r \<in> set (dropna_Year rows)" and n: "normalized_from r m"
    by blast
  from n have "assign_motif (Genre m) = Inr (Motif m)"
    by (simp add: normalized_from_def)
  then have g: "Genre m \<noteq> None"
    by (cases "Genre m") (simp_all add: assign_motif_def MOTIF_MAP_def)
  from r rows have "contains_na_False ''Nicolas Cage'' (Cast r)"
    by (auto simp: dropna_Year_def dest: load_data_Inr)
  then have "Cast r \<noteq> None"
    by (cases "Cast r") (simp_all add: contains_na_False_def)
  with n have "Cast m \<noteq> None"
    by (simp add: normalized_from_def)
  with g show "Genre m \<noteq> None \<and> Cast m \<noteq> None" ..
qed

lemma poster_or_default_nonempty: "\<exists>u. poster_or_default p = Some u \<and> u \<noteq> []"
proof (cases p)
  case None
  then show ?thesis by (simp add: poster_or_default_def DEFAULT_POSTER_URL_def)
next
  case (Some v)
  show ?thesis
  proof (cases "strip v = []")
    case True
    with Some show ?thesis by (simp add: poster_or_default_def DEFAULT_POSTER_URL_def)
  next
    case False
    then have "v \<noteq> []" by auto
    with False Some show ?thesis by (simp add: poster_or_default_def)
  qed
qed

text \<open>
  C3. When normalisation succeeds, its rows are the subject's rows with a Year, in order.
  Each has the integer that the cast makes of its Year, and a Poster that is present and
  not empty: the placeholder where the Poster of the file was missing or empty after
  trimming the whitespace around it, the Poster of the file otherwise.
\<close>

theorem normalize_Year_int_Poster:
  assumes "normalize df = Inr movies"
  shows "\<exists>rows. load_data df = Inr rows \<and>
         list_all2
           (\<lambda>r m. astype_int (Year r) = Inr (Year_int m)
              \<and> Poster m =
                  (if Poster r = None \<or> (\<exists>u. Poster r = Some u \<and> strip u = [])
                   then Some ''https://via.placeholder.com/300x450?text=No+Image''
                   else Poster r)
              \<and> (\<exists>u. Poster m = Some u \<and> u \<noteq> []))
           (filter (\<lambda>r. Year r \<noteq> YNaN) rows) movies"
proof -
  have step: "astype_int (Year r) = Inr (Year_int m)
          \<and> Poster m =
              (if Poster r = None \<or> (\<exists>u. Poster r = Some u \<and> strip u = [])
               then Some ''https://via.placeholder.com/300x450?text=No+Image''
               else Poster r)
          \<and> (\<exists>u. Poster m = Some u \<and> u \<noteq> [])" if "normalized_from r m" for r m
  proof -
    from that have y: "astype_int (Year r) = Inr (Year_int m)"
      and p: "Poster m = poster_or_default (Poster r)"
      by (simp_all add: normalized_from_def)
    from p have "\<exists>u. Poster m = Some u \<and> u \<noteq> []"
      using poster_or_default_nonempty[of "Poster r"] by simp
    with y p show ?thesis
      using poster_or_default_cases[of "Poster r"] by simp
  qed
  from normalize_Inr[OF assms] obtain rows where
    rows: "load_data df = Inr rows"
    and "list_all2 normalized_from (filter (\<lambda>r. Year r \<noteq> YNaN) rows) movies"
    by (auto simp: dropna_Year_def)
  then have "list_all2
           (\<lambda>r m. astype_int (Year r) = Inr (Year_int m)
              \<and> Poster m =
                  (if Poster r = None \<or> (\<exists>u. Poster r = Some u \<and> strip u = [])
                   then Some ''https://via.placeholder.com/300x450?text=No+Image''
                   else Poster r)
              \<and> (\<exists>u. Poster m = Some u \<and> u \<noteq> []))
           (filter (\<lambda>r. Year r \<noteq> YNaN) rows) movies"
    by (rule_tac list_all2_mono) (assumption, rule step)
  with rows show ?thesis by (intro exI conjI)
qed

theorem normalize_Year_int_Poster_witness:
  "normalize example_df = Inr example_movies
   \<and> (\<exists>rows. load_data example_df = Inr rows \<and>
         list_all2
           (\<lambda>r m. astype_int (Year r) = Inr (Year_int m)
              \<and> Poster m =
                  (if Poster r = None \<or> (\<exists>u. Poster r = Some u \<and> strip u = [])
                   then Some ''https://via.placeholder.com/300x450?text=No+Image''
                   else Poster r)
              \<and> (\<exists>u. Poster m = Some u \<and> u \<noteq> []))
           (filter (\<lambda>r. Year r \<noteq> YNaN) rows) example_movies)"
proof (rule conjI)
  show "normalize example_df = Inr example_movies"
    by (rule normalize_example)
  then show "\<exists>rows. load_data example_df = Inr rows \<and>
         list_all2
           (\<lambda>r m. astype_int (Year r) = Inr (Year_int m)
              \<and> Poster m =
                  (if Poster r = None \<or> (\<exists>u. Poster r = Some u \<and> strip u = [])
                   then Some ''https://via.placeholder.com/300x450?text=No+Image''
                   else Poster r)
              \<and> (\<exists>u. Poster m = Some u \<and> u \<noteq> []))
           (filter (\<lambda>r. Year r \<noteq> YNaN) rows) example_movies"
    by (rule normalize_Year_int_Poster)
qed

subsection \<open>Rows without a Genre\<close>

lemma with_Motif_error: "with_Motif y = Inl e \<Longrightarrow> e = TypeError"
  by (cases "Genre y")
     (auto simp: with_Motif_def assign_motif_def MOTIF_MAP_def split: sum.splits if_splits)

lemma assign_motif_None: "assign_motif None = Inl TypeError"
  by (simp add: assign_motif_def MOTIF_MAP_def)

lemma with_Year_int_Genre: "with_Year_int r = Inr y \<Longrightarrow> Genre (with_Poster y) = Genre r"
  by (auto simp: with_Year_int_def with_Poster_def movie.defs ymovie.defs split: sum.splits)

text \<open>
  C10. Motif derivation is not total: for a row of the subject that has a Year and no
  Genre, \<open>assign_motif\<close> raises TypeError, and normalisation as a whole fails: with the
  ValueError of the year cast where that raises first, with this TypeError otherwise. So
  normalisation succeeds only when every surviving row has a Genre string.
\<close>

theorem normalize_missing_Genre:
  assumes "load_data df = Inr rows" and "r \<in> set (dropna_Year rows)" and "Genre r = None"
  shows "assign_motif (Genre r) = Inl TypeError
         \<and> normalize df =
             (case apply_rows with_Year_int (dropna_Year rows) of
                Inl e \<Rightarrow> Inl e
              | Inr ys \<Rightarrow> Inl TypeError)"
proof
  show "assign_motif (Genre r) = Inl TypeError"
    using assms(3) by (simp add: assign_motif_None)
  show "normalize df =
             (case apply_rows with_Year_int (dropna_Year rows) of
                Inl e \<Rightarrow> Inl e
              | Inr ys \<Rightarrow> Inl TypeError)"
  proof (cases "apply_rows with_Year_int (dropna_Year rows)")
    case (Inl e)
    then show ?thesis using assms(1) by (simp add: normalize_def)
  next
    case (Inr ys)
    then have "list_all2 (\<lambda>r y. with_Year_int r = Inr y) (dropna_Year rows) ys"
      by (simp add: apply_rows_Inr map_eq_map_list_all2)
    with assms(2) obtain y where y: "y \<in> set ys" "with_Year_int r = Inr y"
      using list_all2_pick by force
    then have "Genre (with_Poster y) = None"
      using assms(3) by (simp add: with_Year_int_Genre)
    then have m: "with_Motif (with_Poster y) = Inl TypeError"
      by (simp add: with_Motif_def assign_motif_None)
    have "apply_rows with_Motif (map with_Poster ys) = Inl TypeError"
    proof (rule apply_rows_Inl)
      show "\<And>x e. x \<in> set (map with_Poster ys) \<Longrightarrow> with_Motif x = Inl e \<Longrightarrow> e = TypeError"
        by (rule with_Motif_error)
      show "with_Poster y \<in> set (map with_Poster ys)"
        using y by simp
      show "with_Motif (with_Poster y) = Inl TypeError"
        by (rule m)
    qed
    with Inr show ?thesis using assms(1) by (simp add: normalize_def)
  qed
qed

theorem normalize_missing_Genre_witness:
  "load_data [untagged_row] = Inr [untagged_row]
   \<and> untagged_row \<in> set (dropna_Year [untagged_row])
   \<and> Genre untagged_row = None
   \<and> assign_motif (Genre untagged_row) = Inl TypeError
   \<and> normalize [untagged_row] = Inl TypeError"
proof -
  have l: "load_data [untagged_row] = Inr [untagged_row]"
    by (simp add: untagged_row_def load_data_def contains_na_False_def)
  have a: "untagged_row \<in> set (dropna_Year [untagged_row])"
    by (simp add: untagged_row_def dropna_Year_def)
  have b: "Genre untagged_row = None"
    by (simp add: untagged_row_def)
  have c: "apply_rows with_Year_int (dropna_Year [untagged_row]) =
             Inr [movie.extend untagged_row (ymovie.fields 2001)]"
    by (simp add: untagged_row_def dropna_Year_def with_Year_int_def astype_int_def Let_def)
  from normalize_missing_Genre[OF l a b] l a b c show ?thesis by simp
qed

subsection \<open>Rows without a usable Year\<close>

text \<open>
  C5. A row of the subject whose Year is text that is no number, such as \<open>unknown\<close>, is
  not left out by normalisation: only missing values are dropped, the cast of the
  column calls \<open>int\<close> on the text and normalisation ends in ValueError, where the claim
  has the row excluded without an error.
\<close>

theorem normalize_unparseable_Year_raises:
  "normalize [undated_row] = Inl ValueError"
  by (simp add: normalize_def undated_row_def dropna_Year_def load_data_def
      contains_na_False_def with_Year_int_def astype_int_def)

text \<open>What the claim says of the other rows holds of the script.\<close>

lemma with_Year_int_error: "with_Year_int r = Inl e \<Longrightarrow> e = ValueError"
  by (cases "Year r")
     (auto simp: with_Year_int_def astype_int_def Let_def split: sum.splits)

lemma dropna_Year_skips_missing:
  assumes "Year r = YNaN"
  shows "dropna_Year (xs @ r # ys) = dropna_Year (xs @ ys)"
  using assms by (simp add: dropna_Year_def)

lemma astype_int_YFloat:
  assumes "- (2 ^ 63) \<le> q" and "q < 2 ^ 63"
  shows "\<exists>y. astype_int (YFloat q) = Inr y \<and> \<bar>of_int y\<bar> \<le> \<bar>q\<bar> \<and> \<bar>q - of_int y\<bar> < 1"
proof (cases "q < 0")
  case True
  define t where "t = \<lfloor>- q\<rfloor>"
  define z :: rat where "z = of_int t"
  have le: "z \<le> - q" unfolding z_def t_def by (rule of_int_floor_le)
  have lt: "- q < z + 1" unfolding z_def t_def using floor_correct[of "- q"] by simp
  have nonneg: "0 \<le> t" unfolding t_def using True by simp
  have "of_int t \<le> (2 ^ 63 :: rat)" using le assms(1) unfolding z_def by linarith
  then have "of_int t \<le> (of_int (2 ^ 63) :: rat)" by simp
  then have upper: "t \<le> 2 ^ 63" by (simp only: of_int_le_iff)
  from nonneg upper have fits: "- (2 ^ 63) \<le> - t \<and> - t < 2 ^ 63" by simp
  from True fits have "astype_int (YFloat q) = Inr (- t)"
    by (simp add: astype_int_def Let_def t_def)
  moreover have "\<bar>of_int (- t)\<bar> \<le> \<bar>q\<bar> \<and> \<bar>q - of_int (- t)\<bar> < 1"
    using le lt nonneg True unfolding z_def by (simp; linarith?)
  ultimately show ?thesis by blast
next
  case False
  define t where "t = \<lfloor>q\<rfloor>"
  define z :: rat where "z = of_int t"
  have le: "z \<le> q" unfolding z_def t_def by (rule of_int_floor_le)
  have lt: "q < z + 1" unfolding z_def t_def using floor_correct[of q] by simp
  have nonneg: "0 \<le> t" unfolding t_def using False by simp
  have "of_int t < (2 ^ 63 :: rat)" using le assms(2) unfolding z_def by linarith
  then have "of_int t < (of_int (2 ^ 63) :: rat)" by simp
  then have upper: "t < 2 ^ 63" by (simp only: of_int_less_iff)
  from nonneg upper have fits: "- (2 ^ 63) \<le> t \<and> t < 2 ^ 63" by simp
  from False fits have "astype_int (YFloat q) = Inr t"
    by (simp add: astype_int_def Let_def t_def)
  moreover have "\<bar>of_int t\<bar> \<le> \<bar>q\<bar> \<and> \<bar>q - of_int t\<bar> < 1"
    using le lt nonneg False unfolding z_def by (simp; linarith?)
  ultimately show ?thesis by blast
qed

subsection \<open>Selections that leave no row\<close>

text \<open>
  C1, as the specification states it, fails: when no row of the file is the subject's,
  the bounds of the year slider are taken of an empty list, the script raises ValueError
  and no table is computed.
\<close>

theorem script_no_subject_rows_raises:
  "load_data other_actor_df = Inr []
   \<and> script other_actor_df (1988, 1988) ''All'' = Inl ValueError"
  by (simp add: script_def normalize_def other_actor_df_def load_data_def dropna_Year_def
      contains_na_False_def slider_bounds_def)

lemma aggregate_Nil: "aggregate [] = empty_tables"
  by (simp add: aggregate_def empty_tables_def counts_def top_genres_def rating_counts_def
      top5_def director_df_def co_stars_df_def series_mean_def series_min_def series_max_def
      nlargest_counts_def value_counts_def by_count_desc_def count_table_def split_explode_def
      nlargest_Rating_def ranked_def)

lemma slider_bounds_nonempty:
  assumes "movies \<noteq> []"
  shows "\<exists>b. slider_bounds movies = Inr b"
proof -
  have "set (sort (remdups (map Year_int movies))) \<noteq> {}"
    using assms by simp
  then have "sort (remdups (map Year_int movies)) \<noteq> []"
    by (metis set_empty)
  then show ?thesis
    by (auto simp: slider_bounds_def split: list.splits)
qed

text \<open>
  C1, amended. When normalisation leaves at least one row and the selection leaves none,
  the script raises nothing; the yearly counts, the top genres, the rating counts, the
  data of the duration chart, the top five, the top directors and the top co-stars are
  empty, and mean, minimum and maximum of Rating and of Duration are the missing value
  NaN, not 0.
\<close>

theorem script_empty_selection:
  assumes "normalize df = Inr movies" and "movies \<noteq> []"
    and "apply_filters yr selected_motif movies = []"
  shows "script df yr selected_motif =
           Inr \<lparr>t_counts = [], t_top_genres = [],
                t_avg_rating = None, t_min_rating = None, t_max_rating = None,
                t_avg_duration = None, t_min_duration = None, t_max_duration = None,
                t_rating_counts = [], t_duration_chart = [], t_top5 = [],
                t_director_df = [], t_co_stars_df = []\<rparr>"
proof -
  from slider_bounds_nonempty[OF assms(2)] obtain b where "slider_bounds movies = Inr b" ..
  with assms(1,3) have "script df yr selected_motif = Inr (aggregate [])"
    by (simp add: script_def)
  then show ?thesis
    by (simp add: aggregate_Nil empty_tables_def)
qed

lemma example_movies_nonempty: "example_movies \<noteq> []"
  by (simp add: example_movies_def)

lemma example_no_match: "apply_filters (1990, 1995) ''All'' example_movies = []"
  by (simp add: apply_filters_def example_movies_def)

theorem script_empty_selection_witness:
  "normalize example_df = Inr example_movies \<and> example_movies \<noteq> []
   \<and> apply_filters (1990, 1995) ''All'' example_movies = []
   \<and> script example_df (1990, 1995) ''All'' =
           Inr \<lparr>t_counts = [], t_top_genres = [],
                t_avg_rating = None, t_min_rating = None, t_max_rating = None,
                t_avg_duration = None, t_min_duration = None, t_max_duration = None,
                t_rating_counts = [], t_duration_chart = [], t_top5 = [],
                t_director_df = [], t_co_stars_df = []\<rparr>"
  using script_empty_selection[OF normalize_example example_movies_nonempty example_no_match]
    normalize_example example_movies_nonempty example_no_match
  by blast

subsection \<open>Counting\<close>

lemma bump_eq:
  assumes "distinct ks"
  shows "bump x (map (\<lambda>k. (k, c k)) ks) =
           (if x \<in> set ks then map (\<lambda>k. (k, if k = x then Suc (c k) else c k)) ks
            else map (\<lambda>k. (k, c k)) ks @ [(x, 1)])"
  using assms by (induction ks) auto

lemma count_table_snoc: "count_table (xs @ [x]) = bump x (count_table xs)"
  by (simp add: count_table_def)

lemma first_seen_snoc:
  "rev (remdups (rev (xs @ [x]))) =
     (if x \<in> set xs then rev (remdups (rev xs)) else rev (remdups (rev xs)) @ [x])"
  by simp

text \<open>
  The table of counts lists every value once, in the order of first appearance, with
  the number of its occurrences.
\<close>

lemma count_table_eq:
  "count_table xs = map (\<lambda>k. (k, count_list xs k)) (rev (remdups (rev xs)))"
proof (induction xs rule: rev_induct)
  case Nil
  then show ?case by (simp add: count_table_def)
next
  case (snoc x xs)
  have d: "distinct (rev (remdups (rev xs)))" by simp
  have s: "set (rev (remdups (rev xs))) = set xs" by simp
  show ?case
    unfolding count_table_snoc snoc.IH bump_eq[OF d] s first_seen_snoc
    by auto
qed

lemma by_count_desc_idem: "by_count_desc (by_count_desc t) = by_count_desc t"
  unfolding by_count_desc_def by (rule sort_key_id_if_sorted) simp

lemma nlargest_value_counts:
  "nlargest_counts n (value_counts col) =
     take n (sort_key (\<lambda>kc. - int (snd kc))
               (map (\<lambda>k. (k, count_list (dropna col) k)) (rev (remdups (rev (dropna col))))))"
proof -
  have "nlargest_counts n (value_counts col) = take n (by_count_desc (count_table (dropna col)))"
    by (simp add: nlargest_counts_def value_counts_def by_count_desc_idem)
  then show ?thesis
    by (simp add: by_count_desc_def count_table_eq)
qed

lemma dropna_append: "dropna (xs @ ys) = dropna xs @ dropna ys"
  by (induction xs rule: dropna.induct) simp_all

lemma dropna_map_Some: "dropna (map Some xs) = xs"
  by (induction xs) simp_all

lemma dropna_split_explode: "dropna (split_explode col) = concat (map str_split (dropna col))"
proof (induction col rule: dropna.induct)
  case 1
  then show ?case by (simp add: split_explode_def)
next
  case (2 xs)
  then show ?case by (simp add: split_explode_def)
next
  case (3 x xs)
  then show ?case by (simp add: split_explode_def dropna_append dropna_map_Some)
qed

lemma dropna_filter_neq:
  "dropna (filter (\<lambda>s. s \<noteq> Some a) xs) = filter (\<lambda>s. s \<noteq> a) (dropna xs)"
  by (induction xs rule: dropna.induct) simp_all

lemma filter_take_prefix: "prefix (filter P (take n xs)) (filter P xs)"
proof -
  have "filter P xs = filter P (take n xs) @ filter P (drop n xs)"
    by (metis append_take_drop_id filter_append)
  then show ?thesis by (simp add: prefix_def)
qed


subsection \<open>Genres\<close>


subsection \<open>Co-stars\<close>

lemma set_dropna: "set (dropna xs) = {x. Some x \<in> set xs}"
  by (induction xs rule: dropna.induct) auto

text \<open>
  C8. The co-star table counts the names that the Cast strings give when split on ", ",
  without the tokens equal to the subject's name; so the subject's name is in no row of
  the top five co-stars, for any rows the filter may pass.
\<close>

theorem co_stars_df_excludes_subject:
  "(let names = filter (\<lambda>s. s \<noteq> ''Nicolas Cage'')
                  (concat (map str_split (dropna (map Cast filtered))));
        table = map (\<lambda>a. (a, count_list names a)) (rev (remdups (rev names)))
    in co_stars_df filtered = take 5 (sort_key (\<lambda>ac. - int (snd ac)) table)
       \<and> ''Nicolas Cage'' \<notin> fst ` set (co_stars_df filtered))"
proof -
  define names where "names = filter (\<lambda>s. s \<noteq> ''Nicolas Cage'')
                  (concat (map str_split (dropna (map Cast filtered))))"
  define table where "table = map (\<lambda>a. (a, count_list names a)) (rev (remdups (rev names)))"
  have eq: "co_stars_df filtered = take 5 (sort_key (\<lambda>ac. - int (snd ac)) table)"
    by (simp add: co_stars_df_def nlargest_value_counts dropna_filter_neq dropna_split_explode
        names_def table_def)
  have "set (co_stars_df filtered) \<subseteq> set table"
    unfolding eq using set_take_subset[of 5 "sort_key (\<lambda>ac. - int (snd ac)) table"] by simp
  then have "fst ` set (co_stars_df filtered) \<subseteq> fst ` set table"
    by (rule image_mono)
  also have "fst ` set table = set names"
    by (simp add: table_def image_image)
  finally have "''Nicolas Cage'' \<notin> fst ` set (co_stars_df filtered)"
    by (auto simp: names_def)
  with eq show ?thesis
    unfolding Let_def names_def[symmetric] table_def[symmetric] by simp
qed

subsection \<open>Top five by rating\<close>

lemma nlargest_Rating_ranked: "nlargest_Rating n df = take n (ranked df)"
  by (simp add: nlargest_Rating_def)

lemma length_ranked: "length (ranked df) = length df"
  using sum_length_filter_compl[of "\<lambda>m. Rating m \<noteq> None" df] by (simp add: ranked_def)

lemma mset_ranked: "mset (ranked df) = mset df"
proof -
  have "mset (ranked df) = {#m \<in># mset df. Rating m \<noteq> None#} + {#m \<in># mset df. \<not> Rating m \<noteq> None#}"
    by (simp add: ranked_def)
  then show ?thesis by (simp only: multiset_partition[symmetric])
qed

lemma set_ranked: "set (ranked df) = set df"
  by (auto simp: ranked_def)

lemma ranked_falling:
  "sorted_wrt (\<lambda>x y. Rating y = None \<or> (\<exists>a b. Rating y = Some a \<and> Rating x = Some b \<and> a \<le> b))
     (ranked df)"
proof -
  let ?R = "\<lambda>x y. Rating y = None \<or> (\<exists>a b. Rating y = Some a \<and> Rating x = Some b \<and> a \<le> b)"
  let ?A = "sort_key neg_Rating (filter (\<lambda>m. Rating m \<noteq> None) df)"
  let ?B = "filter (\<lambda>m. Rating m = None) df"
  have "sorted (map neg_Rating ?A)" by simp
  then have "sorted_wrt (\<lambda>x y. neg_Rating x \<le> neg_Rating y) ?A"
    by (simp add: sorted_map)
  moreover have "\<And>x y. x \<in> set ?A \<Longrightarrow> y \<in> set ?A \<Longrightarrow> neg_Rating x \<le> neg_Rating y \<Longrightarrow> ?R x y"
    by (auto simp: neg_Rating_def)
  ultimately have a: "sorted_wrt ?R ?A"
    by (rule sorted_wrt_mono_rel[rotated])
  have "sorted_wrt (\<lambda>x y. True) ?B" by simp
  moreover have "\<And>x y. x \<in> set ?B \<Longrightarrow> y \<in> set ?B \<Longrightarrow> True \<Longrightarrow> ?R x y"
    by simp
  ultimately have b: "sorted_wrt ?R ?B"
    by (rule sorted_wrt_mono_rel[rotated])
  have c: "\<forall>x\<in>set ?A. \<forall>y\<in>set ?B. ?R x y" by simp
  from a b c show ?thesis
    unfolding ranked_def sorted_wrt_append by blast
qed

lemma take_drop_falling:
  assumes "sorted_wrt R xs" and "x \<in> set (take n xs)" and "y \<in> set (drop n xs)"
  shows "R x y"
proof -
  from assms(1) have "sorted_wrt R (take n xs @ drop n xs)" by simp
  with assms(2,3) show ?thesis
    unfolding sorted_wrt_append by blast
qed

lemma ranked_ties:
  "filter (\<lambda>m. Rating m = v) (ranked df) = filter (\<lambda>m. Rating m = v) df"
proof (cases v)
  case None
  have "filter (\<lambda>m. Rating m = None) (sort_key neg_Rating (filter (\<lambda>m. Rating m \<noteq> None) df)) = []"
    by (simp add: filter_empty_conv)
  with None show ?thesis by (simp add: ranked_def)
next
  case (Some a)
  let ?rated = "filter (\<lambda>m. Rating m \<noteq> None) df"
  have k: "filter (\<lambda>m. Rating m = Some a) xs = filter (\<lambda>m. neg_Rating m = - a) xs"
    if "\<forall>m\<in>set xs. Rating m \<noteq> None" for xs
    using that by (intro filter_cong) (auto simp: neg_Rating_def)
  have "filter (\<lambda>m. Rating m = Some a) (sort_key neg_Rating ?rated) =
          filter (\<lambda>m. neg_Rating m = - a) (sort_key neg_Rating ?rated)"
    by (rule k) simp
  also have "\<dots> = filter (\<lambda>m. neg_Rating m = - a) ?rated"
    by (rule sort_key_stable)
  also have "\<dots> = filter (\<lambda>m. Rating m = Some a) ?rated"
    by (rule k[symmetric]) simp
  also have "\<dots> = filter (\<lambda>m. Rating m = Some a) df"
    by (induction df) auto
  finally have "filter (\<lambda>m. Rating m = Some a) (sort_key neg_Rating ?rated) =
                  filter (\<lambda>m. Rating m = Some a) df" .
  moreover have "filter (\<lambda>m. Rating m = Some a) (filter (\<lambda>m. Rating m = None) df) = []"
    by (induction df) auto
  ultimately show ?thesis using Some by (simp add: ranked_def)
qed

text \<open>
  C7. The top five are five rows of the filtered frame (all of them when it has fewer),
  each taken once. No row left out has a higher rating than a row taken, and a row
  without a rating is taken only after every rated one. Among rows of equal rating the
  frame order decides: the rows taken of any one rating are the first of that rating
  in the frame, in frame order. Each carries Title, Year_int, Rating, Poster and Genre
  of its row and nothing else.
\<close>

theorem top5_selection:
  "(let best = nlargest_Rating 5 filtered in
      top5 filtered = map highlight_of best
      \<and> length best = min 5 (length filtered)
      \<and> mset best \<subseteq># mset filtered
      \<and> (\<forall>x\<in>set best. \<forall>y\<in>set filtered - set best.
            Rating y = None \<or> (\<exists>a b. Rating y = Some a \<and> Rating x = Some b \<and> a \<le> b))
      \<and> (\<forall>v. prefix (filter (\<lambda>m. Rating m = v) best) (filter (\<lambda>m. Rating m = v) filtered)))
   \<and> highlight_of m =
       \<lparr>top5_Title = Title m, top5_Year_int = Year_int m, top5_Rating = Rating m,
        top5_Poster = Poster m, top5_Genre = Genre m\<rparr>"
proof -
  define best where "best = nlargest_Rating 5 filtered"
  have b: "best = take 5 (ranked filtered)"
    by (simp add: best_def nlargest_Rating_ranked)
  have p1: "top5 filtered = map highlight_of best"
    by (simp add: top5_def best_def)
  have p2: "length best = min 5 (length filtered)"
    by (simp add: b length_ranked min.commute)
  have "mset (take 5 (ranked filtered)) \<subseteq># mset (take 5 (ranked filtered)) + mset (drop 5 (ranked filtered))"
    by (rule mset_subset_eq_add_left)
  also have "mset (take 5 (ranked filtered)) + mset (drop 5 (ranked filtered)) = mset (ranked filtered)"
    by (simp only: mset_append[symmetric] append_take_drop_id)
  finally have p3: "mset best \<subseteq># mset filtered"
    by (simp add: b mset_ranked)
  have p4: "Rating y = None \<or> (\<exists>a b. Rating y = Some a \<and> Rating x = Some b \<and> a \<le> b)"
    if "x \<in> set best" and "y \<in> set filtered - set best" for x y
  proof -
    from that(2) have "y \<in> set (take 5 (ranked filtered) @ drop 5 (ranked filtered))"
      and "y \<notin> set (take 5 (ranked filtered))"
      by (simp_all add: set_ranked b)
    then have "y \<in> set (drop 5 (ranked filtered))"
      unfolding set_append by blast
    with that(1) show ?thesis
      using take_drop_falling[OF ranked_falling[of filtered], of x 5 y] by (simp add: b)
  qed
  have p5: "prefix (filter (\<lambda>m. Rating m = v) best) (filter (\<lambda>m. Rating m = v) filtered)" for v
    using filter_take_prefix[of "\<lambda>m. Rating m = v" 5 "ranked filtered"]
    by (simp add: b ranked_ties)
  have p6: "highlight_of m =
       \<lparr>top5_Title = Title m, top5_Year_int = Year_int m, top5_Rating = Rating m,
        top5_Poster = Poster m, top5_Genre = Genre m\<rparr>"
    by (simp add: highlight_of_def)
  from p1 p2 p3 p4 p5 p6 show ?thesis
    unfolding Let_def best_def[symmetric] by blast
qed

lemma rated_example_best:
  "nlargest_Rating 5 rated_example =
     [rated_row ''E'' 2004 (Some 9), rated_row ''B'' 2001 (Some 8), rated_row ''A'' 2000 (Some 7),
      rated_row ''D'' 2003 (Some 7), rated_row ''F'' 2005 (Some 7)]"
  by (simp add: nlargest_Rating_def ranked_def rated_example_def rated_row_def neg_Rating_def)

theorem top5_selection_witness:
  "top5 rated_example =
     map highlight_of
       [rated_row ''E'' 2004 (Some 9), rated_row ''B'' 2001 (Some 8),
        rated_row ''A'' 2000 (Some 7), rated_row ''D'' 2003 (Some 7),
        rated_row ''F'' 2005 (Some 7)]
   \<and> length (nlargest_Rating 5 rated_example) = min 5 (length rated_example)
   \<and> rated_row ''F'' 2005 (Some 7) \<in> set (nlargest_Rating 5 rated_example)
   \<and> rated_row ''G'' 2006 (Some 7) \<in> set rated_example - set (nlargest_Rating 5 rated_example)
   \<and> (Rating (rated_row ''G'' 2006 (Some 7)) = None
        \<or> (\<exists>a b. Rating (rated_row ''G'' 2006 (Some 7)) = Some a
                 \<and> Rating (rated_row ''F'' 2005 (Some 7)) = Some b \<and> a \<le> b))
   \<and> prefix (filter (\<lambda>m. Rating m = Some 7) (nlargest_Rating 5 rated_example))
             (filter (\<lambda>m. Rating m = Some 7) rated_example)"
proof -
  note t = top5_selection[of rated_example "rated_row ''A'' 2000 (Some 7)", unfolded Let_def]
  have f: "rated_row ''F'' 2005 (Some 7) \<in> set (nlargest_Rating 5 rated_example)"
    by (simp add: rated_example_best)
  have g: "rated_row ''G'' 2006 (Some 7) \<in> set rated_example - set (nlargest_Rating 5 rated_example)"
    by (simp add: rated_example_best) (simp add: rated_example_def rated_row_def)
  from t have p1: "top5 rated_example = map highlight_of (nlargest_Rating 5 rated_example)"
    by (rule conjunct1[OF conjunct1])
  from t have p2: "length (nlargest_Rating 5 rated_example) = min 5 (length rated_example)"
    by (rule conjunct1[OF conjunct2[OF conjunct1]])
  from t have p4: "\<forall>x\<in>set (nlargest_Rating 5 rated_example).
          \<forall>y\<in>set rated_example - set (nlargest_Rating 5 rated_example).
            Rating y = None \<or> (\<exists>a b. Rating y = Some a \<and> Rating x = Some b \<and> a \<le> b)"
    by (rule conjunct1[OF conjunct2[OF conjunct2[OF conjunct2[OF conjunct1]]]])
  from t have p5: "\<forall>v. prefix (filter (\<lambda>m. Rating m = v) (nlargest_Rating 5 rated_example))
                              (filter (\<lambda>m. Rating m = v) rated_example)"
    by (rule conjunct2[OF conjunct2[OF conjunct2[OF conjunct2[OF conjunct1]]]])
  have d: "Rating (rated_row ''G'' 2006 (Some 7)) = None
        \<or> (\<exists>a b. Rating (rated_row ''G'' 2006 (Some 7)) = Some a
                 \<and> Rating (rated_row ''F'' 2005 (Some 7)) = Some b \<and> a \<le> b)"
    using bspec[OF bspec[OF p4 f] g] .
  from p1 have p1': "top5 rated_example =
     map highlight_of
       [rated_row ''E'' 2004 (Some 9), rated_row ''B'' 2001 (Some 8),
        rated_row ''A'' 2000 (Some 7), rated_row ''D'' 2003 (Some 7),
        rated_row ''F'' 2005 (Some 7)]"
    by (simp only: rated_example_best)
  from p1' p2 f g d spec[OF p5, of "Some 7"] show ?thesis
    by (intro conjI)
qed

subsection \<open>The script on the two films of the specification\<close>

text \<open>
  Both films are of 2007; the genres Action, Thriller and Comedy and the two co-stars each
  count once and stand in the order in which they first appear.
\<close>

lemma two_films_tables:
  "map_sum id (\<lambda>t. (t_counts t, t_top_genres t, t_co_stars_df t, t_avg_rating t))
     (script two_films (2007, 2007) ''All'') =
   Inr ([(2007, 2)],
        [(''Action'', 1), (''Thriller'', 1), (''Comedy'', 1)],
        [(''John Travolta'', 1), (''Sarah Jessica Parker'', 1)],
        Some (29 / 4))"
  by (simp add: script_def normalize_def two_films_def load_data_def dropna_Year_def
      contains_na_False_def with_Year_int_def astype_int_def with_Poster_def with_Motif_def
      poster_or_default_def strip_def space1_def space2_def space3_def assign_motif_def
      MOTIF_MAP_def Let_def
      movie.defs ymovie.defs nmovie.defs slider_bounds_def apply_filters_def aggregate_def
      counts_def top_genres_def co_stars_df_def series_mean_def nlargest_counts_def
      value_counts_def by_count_desc_def count_table_def split_explode_def)

end
